theory Spec2Isabelle
  imports Main "HOL-Library.AList"
begin

section \<open>Python strings\<close>

text \<open>
  A Python \<open>str\<close> is modelled as a HOL \<open>string\<close> holding the UTF-8 bytes of the text.
  Substring search, \<open>split\<close>, \<open>replace\<close> and \<open>join\<close> on valid UTF-8 agree with the same
  operations on code points. Case mapping and whitespace are those of the ASCII range
  (which is where every keyword the program looks for lives); a character outside ASCII
  is kept as it is, which is what Python does for the bullet and the mis-decoded bullet
  the program handles.
\<close>

definition py_isspace :: "char \<Rightarrow> bool" where
  "py_isspace c = (of_char c \<in> {9, 10, 11, 12, 13, 28, 29, 30, 31, 32 :: nat})"

definition lstrip :: "string \<Rightarrow> string" where
  "lstrip s = dropWhile py_isspace s"

definition rstrip :: "string \<Rightarrow> string" where
  "rstrip s = rev (dropWhile py_isspace (rev s))"

definition strip :: "string \<Rightarrow> string" where
  "strip s = rstrip (lstrip s)"

definition upper_char :: "char \<Rightarrow> char" where
  "upper_char c = (if 97 \<le> (of_char c :: nat) \<and> (of_char c :: nat) \<le> 122
                   then char_of (of_char c - 32 :: nat) else c)"

definition lower_char :: "char \<Rightarrow> char" where
  "lower_char c = (if 65 \<le> (of_char c :: nat) \<and> (of_char c :: nat) \<le> 90
                   then char_of (of_char c + 32 :: nat) else c)"

definition upper :: "string \<Rightarrow> string" where
  "upper s = map upper_char s"

definition lower :: "string \<Rightarrow> string" where
  "lower s = map lower_char s"

definition startswith :: "string \<Rightarrow> string \<Rightarrow> bool" where
  "startswith s p = (take (length p) s = p)"

definition endswith :: "string \<Rightarrow> string \<Rightarrow> bool" where
  "endswith s p = (length p \<le> length s \<and> drop (length s - length p) s = p)"

text \<open>\<open>py_in p s\<close> is Python's \<open>p in s\<close>: \<open>p\<close> occurs in \<open>s\<close> as a contiguous substring.\<close>

fun py_in :: "string \<Rightarrow> string \<Rightarrow> bool" where
  "py_in p [] = (p = [])"
| "py_in p (c # s) = (startswith (c # s) p \<or> py_in p s)"

text \<open>\<open>split_on c s\<close> is \<open>s.split(c)\<close> for a separator of one character.\<close>

fun split_on :: "char \<Rightarrow> string \<Rightarrow> string list" where
  "split_on c [] = [[]]"
| "split_on c (x # xs) =
     (if x = c then [] # split_on c xs
      else (case split_on c xs of [] \<Rightarrow> [[x]] | l # ls \<Rightarrow> (x # l) # ls))"

definition newline :: char where
  "newline = CHR 0x0A"

definition split_nl :: "string \<Rightarrow> string list" where
  "split_nl s = split_on newline s"

text \<open>\<open>join sep ls\<close> is \<open>sep.join(ls)\<close>.\<close>

fun join :: "string \<Rightarrow> string list \<Rightarrow> string" where
  "join sep [] = []"
| "join sep [l] = l"
| "join sep (l # m # ls) = l @ sep @ join sep (m # ls)"

definition join_nl :: "string list \<Rightarrow> string" where
  "join_nl ls = join [newline] ls"

text \<open>
  \<open>replace old new s\<close> is \<open>s.replace(old, new)\<close> for a non-empty \<open>old\<close>: one pass from
  the left, each occurrence found is replaced and the search goes on after it.
\<close>

function replace :: "string \<Rightarrow> string \<Rightarrow> string \<Rightarrow> string" where
  "replace old new [] = []"
| "replace old new (x # xs) =
     (if old \<noteq> [] \<and> startswith (x # xs) old
      then new @ replace old new (drop (length old) (x # xs))
      else x # replace old new xs)"
  by pat_completeness auto
termination
  by (relation "measure (\<lambda>(old, new, s). length s)") (auto simp: startswith_def)

section \<open>The Normalizer: \<open>PDFCreator._parse_resume_text\<close>\<close>

datatype py_error = KeyError string

type_synonym sections = "(string \<times> string) list"

text \<open>
  The dictionary \<open>sections\<close> is an association list in insertion order; \<open>d[k] = v\<close> is
  \<open>AList.update k v d\<close> (in place for a key that is there, appended otherwise) and a read
  \<open>d[k]\<close> of a missing key raises \<open>KeyError\<close>.
\<close>

definition getitem :: "sections \<Rightarrow> string \<Rightarrow> py_error + string" where
  "getitem d k = (case map_of d k of None \<Rightarrow> Inl (KeyError k) | Some v \<Rightarrow> Inr v)"

definition initial_sections :: sections where
  "initial_sections =
     [(''name'', ''''), (''contact'', ''''), (''summary'', ''''), (''skills'', ''''),
      (''experience'', ''''), (''education'', ''''), (''additional'', '''')]"

text \<open>The keys of \<open>sections\<close>, in their order.\<close>

definition section_keys :: "string list" where
  "section_keys = [''name'', ''contact'', ''summary'', ''skills'', ''experience'',
                   ''education'', ''additional'']"

text \<open>The mis-decoded bullet: U+201A, U+00C4, U+00A2 in UTF-8.\<close>

definition artifact :: string where
  "artifact = [CHR 0xE2, CHR 0x80, CHR 0x9A, CHR 0xC3, CHR 0x84, CHR 0xC2, CHR 0xA2]"

record pstate =
  sections :: sections
  current_section :: "string option"
  current_content :: "string list"

text \<open>
  \<open>if current_section and current_content: sections[current_section] = '\n'.join(current_content)\<close>
\<close>

definition flush :: "pstate \<Rightarrow> sections" where
  "flush st =
     (case current_section st of
        None \<Rightarrow> sections st
      | Some c \<Rightarrow>
          if c \<noteq> [] \<and> current_content st \<noteq> []
          then AList.update c (join_nl (current_content st)) (sections st)
          else sections st)"

definition enter_section :: "pstate \<Rightarrow> string \<Rightarrow> pstate" where
  "enter_section st k =
     \<lparr>sections = flush st, current_section = Some k, current_content = []\<rparr>"

text \<open>The test \<open>not line or line.startswith('}') or line.startswith('{')\<close> on the stripped line.\<close>

definition skipped :: "string \<Rightarrow> bool" where
  "skipped line = (line = [] \<or> startswith line ''}'' \<or> startswith line ''{'')"

text \<open>One iteration of the loop over the lines.\<close>

definition step :: "pstate \<Rightarrow> string \<Rightarrow> py_error + pstate" where
  "step st raw =
     (let line = strip raw in
      if skipped line then Inr st
      else
        let line_upper = upper line in
        if py_in ''PROFESSIONAL SUMMARY'' line_upper then Inr (enter_section st ''summary'')
        else if py_in ''TECHNICAL SKILLS'' line_upper \<or> py_in ''SKILLS'' line_upper
          then Inr (enter_section st ''skills'')
        else if py_in ''PROFESSIONAL EXPERIENCE'' line_upper \<or> py_in ''EXPERIENCE'' line_upper
          then Inr (enter_section st ''experience'')
        else if py_in ''EDUCATION'' line_upper then Inr (enter_section st ''education'')
        else
          (case getitem (sections st) ''name'' of
             Inl e \<Rightarrow> Inl e
           | Inr nm \<Rightarrow>
               if nm = [] \<and> \<not> py_in ''@'' line \<and> \<not> py_in ''http'' line
                 then Inr (st\<lparr>sections := AList.update ''name'' line (sections st)\<rparr>)
               else if py_in ''@'' line \<or> py_in ''|'' line
                       \<or> (py_in ''Phone'' line \<or> py_in ''Email'' line)
                 then Inr (st\<lparr>sections :=
                        AList.update ''contact'' (strip (replace artifact [] line)) (sections st)\<rparr>)
               else if (case current_section st of None \<Rightarrow> False | Some c \<Rightarrow> c \<noteq> [])
                 then Inr (st\<lparr>current_content := current_content st @ [line]\<rparr>)
               else
                 (case getitem (sections st) ''additional'' of
                    Inl e \<Rightarrow> Inl e
                  | Inr a \<Rightarrow>
                      Inr (st\<lparr>sections :=
                             AList.update ''additional'' (a @ line @ [newline]) (sections st)\<rparr>))))"

fun run :: "pstate \<Rightarrow> string list \<Rightarrow> py_error + pstate" where
  "run st [] = Inr st"
| "run st (l # ls) = (case step st l of Inl e \<Rightarrow> Inl e | Inr st' \<Rightarrow> run st' ls)"

definition initial_state :: pstate where
  "initial_state = \<lparr>sections = initial_sections, current_section = None, current_content = []\<rparr>"

definition parse_resume_text :: "string \<Rightarrow> py_error + sections" where
  "parse_resume_text resume_text =
     (case run initial_state (split_nl resume_text) of
        Inl e \<Rightarrow> Inl e
      | Inr st \<Rightarrow> Inr (flush st))"

section \<open>The application store: \<open>DataManager\<close>\<close>

text \<open>
  What \<open>json.load\<close> returns and \<open>json.dump\<close> accepts. A dictionary is an association
  list in insertion order. The program never computes with a number; a float is kept as
  its decimal text.
\<close>

datatype json =
    JNull
  | JBool bool
  | JInt int
  | JFloat string
  | JStr string
  | JArr "json list"
  | JObj "(string \<times> json) list"

text \<open>
  The applications file, seen through the calls the program makes on it: it does not
  exist (\<open>os.path.exists\<close> is false), it has size 0, \<open>json.load\<close> raises
  \<open>JSONDecodeError\<close> on it, or \<open>json.load\<close> returns a value. \<open>json.dump(v, f)\<close> leaves
  the file in the state \<open>Content v\<close>. Opening, reading and writing the file are taken to
  succeed, so the handlers for other exceptions are not entered.
\<close>

datatype file_state = Missing | Empty | Malformed | Content json

fun is_list :: "json \<Rightarrow> bool" where
  "is_list (JArr xs) = True"
| "is_list v = False"

fun is_dict :: "json \<Rightarrow> bool" where
  "is_dict (JObj d) = True"
| "is_dict v = False"

fun items :: "json \<Rightarrow> json list" where
  "items (JArr xs) = xs"
| "items v = []"

text \<open>\<open>get_job_applications\<close> returns the list and the state the file is left in.\<close>

fun get_job_applications :: "file_state \<Rightarrow> json list \<times> file_state" where
  "get_job_applications Missing = ([], Content (JArr []))"
| "get_job_applications Empty = ([], Content (JArr []))"
| "get_job_applications Malformed = ([], Content (JArr []))"
| "get_job_applications (Content v) =
     (let data = (if \<not> is_list v then [] else items v);
          clean_data = filter is_dict data
      in if length clean_data \<noteq> length data
         then (clean_data, Content (JArr clean_data))
         else (clean_data, Content v))"

text \<open>\<open>d[k] = v\<close> on a value: a \<open>TypeError\<close> (here \<open>None\<close>) on anything but a dictionary.\<close>

fun setitem :: "json \<Rightarrow> string \<Rightarrow> json \<Rightarrow> json option" where
  "setitem (JObj d) k v = Some (JObj (AList.update k v d))"
| "setitem other k v = None"

text \<open>
  \<open>update_application_status\<close>; \<open>now\<close> is the text of \<open>datetime.now().isoformat()\<close>.
  An exception inside the \<open>try\<close> is caught and gives \<open>False\<close>.
\<close>

definition update_application_status ::
  "string \<Rightarrow> file_state \<Rightarrow> int \<Rightarrow> string \<Rightarrow> bool \<times> file_state" where
  "update_application_status now file app_index new_status =
     (case get_job_applications file of (applications, file1) \<Rightarrow>
        if 0 \<le> app_index \<and> app_index < int (length applications) then
          (case setitem (applications ! nat app_index) ''status'' (JStr new_status) of
             None \<Rightarrow> (False, file1)
           | Some a1 \<Rightarrow>
               (case setitem a1 ''updated_at'' (JStr now) of
                  None \<Rightarrow> (False, file1)
                | Some a2 \<Rightarrow> (True, Content (JArr (applications[nat app_index := a2])))))
        else (False, file1))"

section \<open>The text source: \<open>AIGenerator\<close>\<close>

type_synonym profile = "string \<rightharpoonup> string"

text \<open>\<open>profile.get(k, default)\<close>\<close>

definition get :: "profile \<Rightarrow> string \<Rightarrow> string \<Rightarrow> string" where
  "get p k d = (case p k of None \<Rightarrow> d | Some v \<Rightarrow> v)"

text \<open>The bullet U+2022 in UTF-8.\<close>

definition bullet :: string where
  "bullet = [CHR 0xE2, CHR 0x80, CHR 0xA2]"

text \<open>
  \<open>split_str sep s\<close> is \<open>s.split(sep)\<close> for a non-empty separator (every separator of
  the program is a non-empty literal).
\<close>

function split_str :: "string \<Rightarrow> string \<Rightarrow> string list" where
  "split_str sep [] = [[]]"
| "split_str sep (x # xs) =
     (if sep \<noteq> [] \<and> startswith (x # xs) sep
      then [] # split_str sep (drop (length sep) (x # xs))
      else (case split_str sep xs of [] \<Rightarrow> [[x]] | l # ls \<Rightarrow> (x # l) # ls))"
  by pat_completeness auto
termination
  by (relation "measure (\<lambda>(sep, s). length s)") (auto simp: startswith_def)

text \<open>\<open>rfind c s\<close> is \<open>s.rfind(c)\<close>: the last index of \<open>c\<close>, or -1.\<close>

definition rfind :: "char \<Rightarrow> string \<Rightarrow> int" where
  "rfind c s =
     (if c \<in> set s then int (length s) - 1 - int (length (takeWhile (\<lambda>x. x \<noteq> c) (rev s)))
      else - 1)"

text \<open>\<open>slice_to s k\<close> is \<open>s[:k]\<close>; a negative \<open>k\<close> counts from the end.\<close>

definition slice_to :: "string \<Rightarrow> int \<Rightarrow> string" where
  "slice_to s k = (if k < 0 then take (nat (int (length s) + k)) s else take (nat k) s)"

text \<open>
  The characters of a string, one UTF-8 sequence each: what iterating over a Python
  \<open>str\<close> yields.
\<close>

definition is_continuation :: "char \<Rightarrow> bool" where
  "is_continuation c = (128 \<le> (of_char c :: nat) \<and> (of_char c :: nat) < 192)"

fun code_points :: "string \<Rightarrow> string list" where
  "code_points [] = []"
| "code_points [c] = [[c]]"
| "code_points (c # d # s) =
     (if is_continuation d
      then (case code_points (d # s) of [] \<Rightarrow> [[c]] | l # ls \<Rightarrow> (c # l) # ls)
      else [c] # code_points (d # s))"

subsection \<open>The template fallbacks\<close>

definition generate_resume_template :: "profile \<Rightarrow> string \<Rightarrow> string" where
  "generate_resume_template profile job_description =
     (let name = get profile ''name'' ''Your Name'';
          email = get profile ''email'' ''email@example.com'';
          phone = get profile ''phone'' ''Phone'';
          skills = get profile ''skills'' ''Skills not specified'';
          experience = get profile ''experience'' ''Experience not specified'';
          education = get profile ''education'' ''Education not specified''
      in strip (join_nl
        ['''',
         ''        '' @ name,
         ''        '' @ email @ '' | '' @ phone,
         '''',
         ''        PROFESSIONAL SUMMARY'',
         ''        Experienced professional with skills in '' @ skills @ ''. '',
         ''        Seeking to leverage expertise in a challenging new role.'',
         '''',
         ''        TECHNICAL SKILLS'',
         ''        '' @ bullet @ '' '' @ skills,
         '''',
         ''        PROFESSIONAL EXPERIENCE'',
         ''        '' @ bullet @ '' '' @ experience,
         '''',
         ''        EDUCATION'',
         ''        '' @ bullet @ '' '' @ education,
         ''        '']))"

text \<open>
  \<open>', '.join(profile.get('skills', ['Python']))\<close>: the profile's skills are a string, which
  \<open>join\<close> takes character by character; the default is a list of one string.
\<close>

definition cover_letter_skills :: "profile \<Rightarrow> string" where
  "cover_letter_skills profile =
     (case profile ''skills'' of
        None \<Rightarrow> join '', '' [''Python'']
      | Some s \<Rightarrow> join '', '' (code_points s))"

definition generate_cover_letter_template ::
  "profile \<Rightarrow> string \<Rightarrow> string \<Rightarrow> string \<Rightarrow> string" where
  "generate_cover_letter_template profile company_name position_title job_description =
     (let name = get profile ''name'' ''Your Name'';
          skills = cover_letter_skills profile;
          experience = get profile ''experience'' ''several years of experience''
      in strip (join_nl
        ['''',
         ''    Dear Hiring Manager,'',
         '''',
         ''    I am writing to express my interest in the '' @ position_title
           @ '' position at '' @ company_name @ ''. With my background in '' @ skills
           @ '', I am confident in my ability to contribute effectively to your team.'',
         '''',
         ''    My experience includes '' @ experience
           @ '', and I have a proven track record of solving complex problems and delivering high-quality results.'',
         '''',
         ''    Thank you for considering my application. I look forward to the opportunity to discuss how I can contribute to your organization.'',
         '''',
         ''    Sincerely,'',
         ''    '' @ name,
         ''        '']))"

subsection \<open>The environment of a call\<close>

text \<open>
  What a call of \<open>generate_resume\<close> or \<open>generate_cover_letter\<close> reads from outside:
  \<open>api_key\<close> is the value of \<open>os.getenv("TOGETHER_API_KEY")\<close>, and \<open>completion\<close> is the
  outcome of the remote request of this call, \<open>Some\<close> of the text of
  \<open>response.choices[0].text\<close> or \<open>None\<close> when the request raises (the \<open>except\<close> branch).
  The remote service samples, so its answer is an input of the model, not a function of
  the prompt.
\<close>

record env =
  api_key :: "string option"
  completion :: "string option"

text \<open>\<open>not api_key\<close>\<close>

definition no_api_key :: "env \<Rightarrow> bool" where
  "no_api_key e = (case api_key e of None \<Rightarrow> True | Some k \<Rightarrow> k = [])"

subsection \<open>\<open>generate_resume\<close> with a completion\<close>

definition backticks :: string where
  "backticks = [CHR 0x60, CHR 0x60, CHR 0x60]"

text \<open>Keep the first part between code fences that holds no code.\<close>

definition remove_code_blocks :: "string \<Rightarrow> string" where
  "remove_code_blocks raw_text =
     (if py_in ''def '' raw_text \<or> py_in backticks raw_text \<or> py_in ''print('' raw_text then
        (if py_in backticks raw_text then
           (case find (\<lambda>part. \<not> py_in ''def '' part \<and> \<not> py_in ''print('' part
                                \<and> \<not> py_in ''class '' part)
                      (split_str backticks raw_text) of
              None \<Rightarrow> raw_text
            | Some part \<Rightarrow> strip part)
         else raw_text)
      else raw_text)"

text \<open>Remove everything before the first real line.\<close>

definition drop_preamble :: "profile \<Rightarrow> string \<Rightarrow> string" where
  "drop_preamble profile clean_text =
     (if py_in [newline] clean_text then
        (case dropWhile (\<lambda>line. \<not> (startswith (strip line) ''**''
                                     \<or> startswith (strip line) (get profile ''name'' '''')
                                     \<or> py_in ''Dear'' line))
                        (split_nl clean_text) of
           [] \<Rightarrow> clean_text
         | rest \<Rightarrow> join_nl rest)
      else clean_text)"

definition triggers :: "string list" where
  "triggers = [''this code'', ''note that'', ''recommended to use'', ''simple implementation'',
               ''function'', ''def '', ''return '']"

text \<open>
  Remove trailing explanations: at the first trigger found in the lowered text, cut at the
  last newline before its first occurrence (\<open>rfind\<close> gives -1 when there is none, and the
  slice then drops the last character).
\<close>

definition cut_trailing :: "string \<Rightarrow> string" where
  "cut_trailing clean_text =
     (case find (\<lambda>trigger. py_in trigger (lower clean_text)) triggers of
        None \<Rightarrow> clean_text
      | Some trigger \<Rightarrow>
          (let parts = split_str trigger (lower clean_text)
           in if length parts > 1
              then strip (slice_to clean_text (rfind newline (hd parts)))
              else clean_text))"

definition summary_part :: "string \<Rightarrow> string" where
  "summary_part clean_text =
     (if py_in ''Summary:'' clean_text
      then strip (hd (split_str ''Skills:'' (last (split_str ''Summary:'' clean_text))))
      else ''Summary not available.'')"

definition skills_part :: "string \<Rightarrow> string" where
  "skills_part clean_text =
     (if py_in ''Skills:'' clean_text
      then replace bullet (bullet @ '' '')
             (strip (hd (split_str ''Experience:'' (last (split_str ''Skills:'' clean_text)))))
      else ''Skills not available.'')"

definition experience_part :: "string \<Rightarrow> string" where
  "experience_part clean_text =
     (if py_in ''Experience:'' clean_text
      then replace bullet (bullet @ '' '')
             (strip (hd (split_str ''Education:'' (last (split_str ''Experience:'' clean_text)))))
      else ''Experience not available.'')"

definition education_part :: "string \<Rightarrow> string" where
  "education_part clean_text =
     (if py_in ''Education:'' clean_text
      then strip (hd (split_str ''}'' (last (split_str ''Education:'' clean_text))))
      else ''Education not available.'')"

definition is_brace :: "char \<Rightarrow> bool" where
  "is_brace c = (c = CHR ''{'' \<or> c = CHR ''}'')"

text \<open>The f-string of the rebuilt resume, before the braces are removed.\<close>

definition resume_layout :: "profile \<Rightarrow> string \<Rightarrow> string" where
  "resume_layout profile clean_text =
     (let name = get profile ''name'' ''Your Name'';
          email = get profile ''email'' ''email@example.com'';
          phone = get profile ''phone'' ''Phone'';
          location = get profile ''location'' ''Location''
      in join_nl
        [name,
         ''            '' @ email @ '' | '' @ phone @ '' | '' @ location,
         '''',
         ''            PROFESSIONAL SUMMARY'',
         ''            '' @ summary_part clean_text,
         '''',
         ''            TECHNICAL SKILLS'',
         ''            '' @ skills_part clean_text,
         '''',
         ''            PROFESSIONAL EXPERIENCE'',
         ''            '' @ experience_part clean_text,
         '''',
         ''            EDUCATION'',
         ''            '' @ education_part clean_text,
         ''            ''])"

definition format_resume :: "profile \<Rightarrow> string \<Rightarrow> string" where
  "format_resume profile clean_text =
     strip (filter (\<lambda>c. \<not> is_brace c) (resume_layout profile clean_text))"

text \<open>
  The body of the \<open>try\<close> after the request. Two stretches of the source leave no trace
  in the value returned and raise nothing, and are not written out: the first clean-up of
  \<open>clean_text\<close> (comment lines, trailing explanations), which the assignment
  \<open>clean_text = raw_text.strip()\<close> overwrites, and the clean-up of \<open>clean_text\<close> after
  \<open>formatted_resume\<close> is built (end markers, separator rows, duplicate sections), since
  \<open>formatted_resume\<close> is what is returned.
\<close>

definition resume_from_completion :: "profile \<Rightarrow> string \<Rightarrow> string" where
  "resume_from_completion profile text =
     (let raw_text = strip text;
          raw_text = remove_code_blocks raw_text;
          clean_text = strip raw_text;
          clean_text = drop_preamble profile clean_text;
          clean_text = cut_trailing clean_text;
          clean_text = strip clean_text;
          clean_text = strip clean_text
      in format_resume profile clean_text)"

definition generate_resume :: "env \<Rightarrow> profile \<Rightarrow> string \<Rightarrow> string" where
  "generate_resume e profile job_description =
     (if no_api_key e then generate_resume_template profile job_description
      else
        (case completion e of
           None \<Rightarrow> generate_resume_template profile job_description
         | Some text \<Rightarrow> resume_from_completion profile text))"

subsection \<open>\<open>generate_cover_letter\<close> with a completion\<close>

definition closing_signs :: "string list" where
  "closing_signs = [''Sincerely,'', ''Best regards,'', ''Yours truly,'', ''Kind regards,'']"

definition is_closing :: "string \<Rightarrow> bool" where
  "is_closing s = list_ex (\<lambda>closing. startswith s closing) closing_signs"

text \<open>Step 2: remove a comment wrapper.\<close>

definition unwrap_comment :: "string \<Rightarrow> string" where
  "unwrap_comment raw_text =
     (let r1 = (if startswith raw_text ''/*'' then lstrip (drop 2 raw_text) else raw_text)
      in if endswith r1 ''*/'' then rstrip (slice_to r1 (- 2)) else r1)"

text \<open>Step 3: the content of a code block.\<close>

definition letter_in_code_block :: "string \<Rightarrow> string" where
  "letter_in_code_block raw_text =
     (if py_in backticks raw_text then
        (case find (\<lambda>part. startswith (strip part) ''Dear'' \<or> py_in ''Hiring Manager'' part)
                   (split_str backticks raw_text) of
           None \<Rightarrow> raw_text
         | Some part \<Rightarrow> strip part)
      else raw_text)"

text \<open>Step 4: drop short comment lines; \<open>len\<close> counts characters.\<close>

definition drop_comment_lines :: "string \<Rightarrow> string" where
  "drop_comment_lines raw_text =
     strip (join_nl (filter (\<lambda>line. \<not> (startswith (strip line) ''#''
                                          \<and> length (code_points (strip line)) < 80))
                            (split_nl raw_text)))"

text \<open>
  Step 5: the loop that copies lines up to the line after the first closing phrase;
  \<open>final_lines\<close> is the list built so far.
\<close>

fun closing_loop :: "bool \<Rightarrow> string list \<Rightarrow> string list \<Rightarrow> string list" where
  "closing_loop closing_found final_lines [] = final_lines"
| "closing_loop closing_found final_lines (line # rest) =
     (let final_lines = final_lines @ [line]
      in if is_closing (strip line) then closing_loop True final_lines rest
         else if closing_found \<and> length final_lines \<ge> 2
                 \<and> is_closing (strip (final_lines ! (length final_lines - 2)))
                 \<and> strip (last final_lines) \<noteq> []
           then final_lines
         else closing_loop closing_found final_lines rest)"

text \<open>Step 6: the index after the name line that follows the first closing phrase.\<close>

fun end_index :: "nat \<Rightarrow> nat \<Rightarrow> string list \<Rightarrow> nat" where
  "end_index n i [] = n"
| "end_index n i (line # rest) =
     (if is_closing (strip line) \<and> i + 1 < n then i + 2 else end_index n (i + 1) rest)"

definition cut_after_closing :: "string \<Rightarrow> string" where
  "cut_after_closing final_text =
     (if py_in ''Here is the cover letter'' final_text \<or> py_in ''This code defines'' final_text
         \<or> py_in ''Note that'' final_text
      then (let lines = split_nl final_text
            in strip (join_nl (take (end_index (length lines) 0 lines) lines)))
      else final_text)"

definition cover_letter_from_completion :: "string \<Rightarrow> string" where
  "cover_letter_from_completion text =
     (let raw_text = strip text;
          raw_text = unwrap_comment raw_text;
          raw_text = letter_in_code_block raw_text;
          clean_text = drop_comment_lines raw_text;
          final_lines = closing_loop False [] (split_nl clean_text);
          final_text = strip (join_nl final_lines)
      in cut_after_closing final_text)"

definition generate_cover_letter ::
  "env \<Rightarrow> profile \<Rightarrow> string \<Rightarrow> string \<Rightarrow> string \<Rightarrow> string" where
  "generate_cover_letter e profile company_name position_title job_description =
     (if no_api_key e
      then generate_cover_letter_template profile company_name position_title job_description
      else
        (case completion e of
           None \<Rightarrow>
             generate_cover_letter_template profile company_name position_title job_description
         | Some text \<Rightarrow> cover_letter_from_completion text))"

section \<open>Notions used in the statements\<close>

text \<open>The sections a header line can open.\<close>

definition cursor_keys :: "string list" where
  "cursor_keys = [''summary'', ''skills'', ''experience'', ''education'']"

text \<open>
  The invariant of the loop: \<open>sections\<close> has its seven keys, in their order, and the
  section cursor, when set, is one of the four sections a header opens.
\<close>

definition wf_state :: "pstate \<Rightarrow> bool" where
  "wf_state st = (map fst (sections st) = section_keys \<and>
                  (case current_section st of None \<Rightarrow> True | Some c \<Rightarrow> c \<in> set cursor_keys))"




text \<open>The profile of the module's own self-test.\<close>

definition test_profile :: profile where
  "test_profile = map_of
     [(''name'', ''John Doe''), (''email'', ''john@example.com''), (''phone'', ''123-456-7890''),
      (''location'', ''New York, NY''), (''current_title'', ''Python Developer''),
      (''skills'', ''Python, JavaScript, SQL, React, Docker''),
      (''experience'', ''5 years of software development experience focusing on web applications and data analysis''),
      (''education'', ''Bachelor's in Computer Science'')]"

text \<open>Three application records.\<close>

definition three_applications :: "json list" where
  "three_applications =
     [JObj [(''company_name'', JStr ''A''), (''status'', JStr ''pending'')],
      JObj [(''company_name'', JStr ''B''), (''status'', JStr ''pending'')],
      JObj [(''company_name'', JStr ''C''), (''status'', JStr ''pending'')]]"












section \<open>Properties of the Normalizer\<close>

subsection \<open>The keys of the result\<close>

text \<open>
  The loop keeps the seven keys of \<open>sections\<close>, in their order, and a section cursor
  that is one of the four a header opens; so no read of \<open>sections\<close> raises.
\<close>


lemma keys_update: "k \<in> set (map fst d) \<Longrightarrow> map fst (AList.update k v d) = map fst d"
  by (simp add: update_keys)

lemma cursor_keys_subset: "k \<in> set cursor_keys \<Longrightarrow> k \<in> set section_keys"
  by (auto simp: cursor_keys_def section_keys_def)

lemma keys_flush: "wf_state st \<Longrightarrow> map fst (flush st) = section_keys"
  by (auto simp: wf_state_def flush_def keys_update cursor_keys_subset split: option.splits)

lemma wf_enter: "wf_state st \<Longrightarrow> k \<in> set cursor_keys \<Longrightarrow> wf_state (enter_section st k)"
  using keys_flush[of st] by (simp add: wf_state_def enter_section_def)

lemma getitem_wf:
  assumes "map fst d = section_keys" and "k \<in> set section_keys"
  shows "\<exists>v. getitem d k = Inr v"
proof -
  from assms have "k \<in> fst ` set d" by (metis list.set_map)
  then obtain v where "map_of d k = Some v"
    by (metis domD dom_map_of_conv_image_fst)
  then show ?thesis by (simp add: getitem_def)
qed

lemma section_keys_mem:
  "''summary'' \<in> set cursor_keys" "''skills'' \<in> set cursor_keys"
  "''experience'' \<in> set cursor_keys" "''education'' \<in> set cursor_keys"
  "''name'' \<in> set section_keys" "''contact'' \<in> set section_keys"
  "''additional'' \<in> set section_keys"
  by (simp_all add: section_keys_def cursor_keys_def)

lemma step_wf:
  assumes wf: "wf_state st"
  shows "\<exists>st'. step st l = Inr st' \<and> wf_state st'"
proof -
  from wf have k: "map fst (sections st) = section_keys" by (simp add: wf_state_def)
  obtain nm where nm: "getitem (sections st) ''name'' = Inr nm"
    using getitem_wf[OF k section_keys_mem(5)] by blast
  obtain ad where ad: "getitem (sections st) ''additional'' = Inr ad"
    using getitem_wf[OF k section_keys_mem(7)] by blast
  have e: "\<And>k. k \<in> set cursor_keys \<Longrightarrow> wf_state (enter_section st k)"
    using wf wf_enter by blast
  have u: "\<And>k v. k \<in> set section_keys
             \<Longrightarrow> wf_state (st\<lparr>sections := AList.update k v (sections st)\<rparr>)"
    using wf by (simp add: wf_state_def keys_update)
  have c: "\<And>x. wf_state (st\<lparr>current_content := x\<rparr>)"
    using wf by (simp add: wf_state_def)
  show ?thesis
    unfolding step_def Let_def nm ad
    using wf e[OF section_keys_mem(1)] e[OF section_keys_mem(2)] e[OF section_keys_mem(3)]
      e[OF section_keys_mem(4)] u[OF section_keys_mem(5)] u[OF section_keys_mem(6)]
      u[OF section_keys_mem(7)] c
    by (simp del: One_nat_def)
qed

lemma run_wf: "wf_state st \<Longrightarrow> \<exists>st'. run st ls = Inr st' \<and> wf_state st'"
proof (induction ls arbitrary: st)
  case Nil
  then show ?case by simp
next
  case (Cons l ls)
  from step_wf[OF Cons.prems, of l] obtain s1 where s1: "step st l = Inr s1" "wf_state s1"
    by blast
  from Cons.IH[OF s1(2)] show ?case by (simp add: s1(1))
qed

lemma wf_initial: "wf_state initial_state"
  by (simp add: wf_state_def initial_state_def initial_sections_def section_keys_def)

text \<open>
  Claim C1. For every raw input string, \<open>_parse_resume_text\<close> returns without raising,
  and the mapping it returns has exactly the seven section keys name, contact, summary,
  skills, experience, education and additional, each bound to a string.
\<close>

theorem parse_resume_text_total:
  "\<exists>m. parse_resume_text resume_text = Inr m \<and> map fst m = section_keys"
proof -
  obtain st where st: "run initial_state (split_nl resume_text) = Inr st" "wf_state st"
    using run_wf[OF wf_initial] by blast
  show ?thesis by (simp add: parse_resume_text_def st(1) keys_flush[OF st(2)])
qed

subsection \<open>The name is the first candidate line\<close>








subsection \<open>Lines and text\<close>








subsection \<open>Skipped lines\<close>








subsection \<open>What the loop does with each kind of line\<close>













subsection \<open>Duplicated headers\<close>







subsection \<open>Where the contact line and the section bodies come from\<close>















text \<open>
  One pass of \<open>replace\<close> can leave an occurrence behind, put together from the text on
  the two sides of one it removed; so the contact field is described by the pass, not as
  free of the artifact.
\<close>

lemma replace_can_leave_artifact:
  "replace artifact [] (take 5 artifact @ artifact @ drop 5 artifact) = artifact"
  by code_simp

subsection \<open>Parsing a canonical document\<close>






section \<open>Properties of the application store\<close>


lemma get_records:
  "list_all is_dict apps \<Longrightarrow>
   get_job_applications (Content (JArr apps)) = (apps, Content (JArr apps))"
  by (simp add: Let_def list_all_iff filter_id_conv[THEN iffD2])


text \<open>
  A file whose JSON value is not an array gives the empty list as well, and is left as it
  is: the comparison of lengths that triggers the rewrite sees two empty lists.
\<close>

lemma get_job_applications_not_a_list:
  "\<not> is_list v \<Longrightarrow> get_job_applications (Content v) = ([], Content v)"
  by (simp add: Let_def)

text \<open>
  Claim C6, as the code has it. On a stored list of three records,
  \<open>update_application_status(0, "interview")\<close> succeeds, sets the status of record 0 to
  interview and its \<open>updated_at\<close> to the current time, and leaves every other field of
  record 0 and the records 1 and 2 as they were. On a stored list of records, an index
  that is negative or not below the length gives failure and the file is unchanged.
\<close>

theorem update_application_status_frame:
  "update_application_status now (Content (JArr [JObj d0, JObj d1, JObj d2])) 0 ''interview'' =
     (True, Content (JArr [JObj (AList.update ''updated_at'' (JStr now)
                                   (AList.update ''status'' (JStr ''interview'') d0)),
                           JObj d1, JObj d2]))
   \<and> (list_all is_dict apps \<and> (i < 0 \<or> int (length apps) \<le> i) \<longrightarrow>
        update_application_status now (Content (JArr apps)) i new_status =
          (False, Content (JArr apps)))"
  by (auto simp: update_application_status_def get_records
           simp del: get_job_applications.simps)

theorem update_application_status_frame_witness:
  "update_application_status ''2026-01-05T10:00:00'' (Content (JArr three_applications))
     3 ''interview'' = (False, Content (JArr three_applications))
   \<and> update_application_status ''2026-01-05T10:00:00'' (Content (JArr three_applications))
     (- 1) ''interview'' = (False, Content (JArr three_applications))
   \<and> update_application_status ''2026-01-05T10:00:00'' (Content (JArr three_applications))
     0 ''interview'' =
     (True, Content (JArr
        [JObj [(''company_name'', JStr ''A''), (''status'', JStr ''interview''),
               (''updated_at'', JStr ''2026-01-05T10:00:00'')],
         JObj [(''company_name'', JStr ''B''), (''status'', JStr ''pending'')],
         JObj [(''company_name'', JStr ''C''), (''status'', JStr ''pending'')]]))"
  using update_application_status_frame
    [of "''2026-01-05T10:00:00''"
        "[(''company_name'', JStr ''A''), (''status'', JStr ''pending'')]"
        "[(''company_name'', JStr ''B''), (''status'', JStr ''pending'')]"
        "[(''company_name'', JStr ''C''), (''status'', JStr ''pending'')]"
        three_applications 3 "''interview''"]
    update_application_status_frame
    [of "''2026-01-05T10:00:00''" "[]" "[]" "[]" three_applications "- 1" "''interview''"]
  by (simp add: three_applications_def)

text \<open>
  The claim as the specification words it, that only the status of record 0 changes,
  fails: record 0 comes back with a field \<open>updated_at\<close> that it did not have.
\<close>

theorem update_application_status_counterexample:
  "snd (update_application_status ''2026-01-05T10:00:00''
          (Content (JArr three_applications)) 0 ''interview'') =
     Content (JArr
        [JObj [(''company_name'', JStr ''A''), (''status'', JStr ''interview''),
               (''updated_at'', JStr ''2026-01-05T10:00:00'')],
         JObj [(''company_name'', JStr ''B''), (''status'', JStr ''pending'')],
         JObj [(''company_name'', JStr ''C''), (''status'', JStr ''pending'')]])
   \<and> snd (update_application_status ''2026-01-05T10:00:00''
          (Content (JArr three_applications)) 0 ''interview'') \<noteq>
     Content (JArr
        [JObj [(''company_name'', JStr ''A''), (''status'', JStr ''interview'')],
         JObj [(''company_name'', JStr ''B''), (''status'', JStr ''pending'')],
         JObj [(''company_name'', JStr ''C''), (''status'', JStr ''pending'')]])"
  by (simp add: update_application_status_def Let_def three_applications_def)

section \<open>Properties of the text source\<close>

text \<open>
  Claim C8. With no credential configured (the environment variable unset or empty),
  \<open>generate_resume\<close> and \<open>generate_cover_letter\<close> return the template texts, which are
  functions of their arguments alone: two calls with the same profile, job description,
  company name and position title return the same string, whatever else the two
  environments hold.
\<close>

theorem fallback_deterministic:
  "no_api_key e1 \<Longrightarrow> no_api_key e2 \<Longrightarrow>
   generate_resume e1 profile job_description = generate_resume e2 profile job_description
   \<and> generate_resume e1 profile job_description =
       generate_resume_template profile job_description
   \<and> generate_cover_letter e1 profile company_name position_title job_description =
       generate_cover_letter e2 profile company_name position_title job_description
   \<and> generate_cover_letter e1 profile company_name position_title job_description =
       generate_cover_letter_template profile company_name position_title job_description"
  by (simp add: generate_resume_def generate_cover_letter_def)

theorem fallback_deterministic_witness:
  "generate_resume \<lparr>api_key = None, completion = Some ''John Doe''\<rparr>
       test_profile ''Python developer''
     = generate_resume \<lparr>api_key = Some '''', completion = None\<rparr>
       test_profile ''Python developer''
   \<and> generate_cover_letter \<lparr>api_key = None, completion = Some ''John Doe''\<rparr>
       test_profile ''TechCorp Inc'' ''Developer'' ''Python developer''
     = generate_cover_letter \<lparr>api_key = Some '''', completion = None\<rparr>
       test_profile ''TechCorp Inc'' ''Developer'' ''Python developer''"
  using fallback_deterministic
    [of "\<lparr>api_key = None, completion = Some ''John Doe''\<rparr>"
        "\<lparr>api_key = Some '''', completion = None\<rparr>"
        test_profile "''Python developer''" "''TechCorp Inc''" "''Developer''"]
  by (simp add: no_api_key_def)

subsection \<open>The shape of the rebuilt resume\<close>

text \<open>A split has at least one part, so its first and its last part exist.\<close>

lemma split_str_not_Nil: "split_str sep s \<noteq> []"
  by (induction sep s rule: split_str.induct) (auto split: list.splits)













end
